theory Spec2Isabelle
  imports Complex_Main "HOL-Library.Log_Nat"
begin

section \<open>Numbers of the upstream JSON and of Python arithmetic\<close>

text \<open>
  A JSON number is parsed by Python either as an unbounded \<open>int\<close> or as a binary64
  \<open>float\<close>.  A float is represented by the rational it denotes.  NaN and the
  infinities never occur inside the upstream arrays and are not part of \<open>num\<close>;
  the sign of a zero is not represented.
\<close>

datatype num = IntN int | FloatN rat

fun val :: "num \<Rightarrow> rat" where
  "val (IntN i) = of_int i"
| "val (FloatN q) = q"

fun is_int :: "num \<Rightarrow> bool" where
  "is_int (IntN i) = True"
| "is_int (FloatN q) = False"

text \<open>
  Python exceptions that the handlers can meet, as values.  \<open>HTTPException code
  description\<close> is what Flask's \<open>abort(code, description=...)\<close> raises.
  \<open>ValueError\<close> stands for the class and its subclasses (\<open>StatisticsError\<close>,
  \<open>JSONDecodeError\<close>), which \<open>except ValueError\<close> catches alike;
  \<open>RequestException\<close> for the network failures of \<open>requests.get\<close>, which it
  does not catch.
\<close>

datatype exn =
    ValueError string
  | OverflowError string
  | IndexError string
  | RequestException string
  | HTTPException nat string

text \<open>Rounding of a rational to the nearest integer, ties to the even one.\<close>

definition round_half_even :: "rat \<Rightarrow> int" where
  "round_half_even q =
     (let f = \<lfloor>q\<rfloor>; r = q - of_int f
      in if r < 1 / 2 then f
         else if 1 / 2 < r then f + 1
         else if even f then f else f + 1)"

definition pow2 :: "int \<Rightarrow> rat" where
  "pow2 k = (if 0 \<le> k then 2 ^ nat k else 1 / 2 ^ nat (- k))"

text \<open>\<open>ilog2 a\<close> is the integer part of the binary logarithm of a positive rational.\<close>

definition ilog2 :: "rat \<Rightarrow> int" where
  "ilog2 a =
     (let k = bitlen (fst (quotient_of a)) - bitlen (snd (quotient_of a))
      in if pow2 k \<le> a then k else k - 1)"

text \<open>
  \<open>binary64 q\<close> is the IEEE 754 double nearest to \<open>q\<close> (ties to even, 53 bits of
  precision, subnormals below \<open>2\<^sup>-\<^sup>1\<^sup>0\<^sup>2\<^sup>2\<close>), or \<open>None\<close> when the rounded
  magnitude reaches \<open>2\<^sup>1\<^sup>0\<^sup>2\<^sup>4\<close>, where Python raises \<open>OverflowError\<close>.
\<close>

definition binary64 :: "rat \<Rightarrow> rat option" where
  "binary64 q =
     (if q = 0 then Some 0
      else let a = \<bar>q\<bar>;
               e = max (ilog2 a) (- 1022);
               u = pow2 (e - 52);
               r = of_int (round_half_even (a / u)) * u
           in if pow2 1024 \<le> r then None else Some (sgn q * r))"

text \<open>Rounding to \<open>n\<close> decimal places, ties to even.\<close>

definition round_decimals :: "nat \<Rightarrow> rat \<Rightarrow> rat" where
  "round_decimals n q = of_int (round_half_even (q * 10 ^ n)) / 10 ^ n"


subsection \<open>The library functions the aggregation calls\<close>

text \<open>
  \<open>statistics.mean\<close>: the exact sum of the data as a fraction, divided by the count.
  Integer data with an integral mean give an \<open>int\<close>; everything else is converted
  to the nearest float.  An empty sequence raises \<open>StatisticsError\<close>, a subclass of
  \<open>ValueError\<close>.
\<close>

definition as_float :: "string \<Rightarrow> rat \<Rightarrow> exn + num" where
  "as_float msg q = (case binary64 q of None \<Rightarrow> Inl (OverflowError msg) | Some r \<Rightarrow> Inr (FloatN r))"

definition mean :: "num list \<Rightarrow> exn + num" where
  "mean data =
     (if data = [] then Inl (ValueError ''mean requires at least one data point'')
      else let q = sum_list (map val data) / of_nat (length data)
           in if list_all is_int data \<and> of_int \<lfloor>q\<rfloor> = q then Inr (IntN \<lfloor>q\<rfloor>)
              else as_float ''integer division result too large for a float'' q)"

text \<open>
  \<open>round(x, ndigits)\<close> for \<open>ndigits \<ge> 0\<close>: an \<open>int\<close> is returned unchanged; a
  float is rounded on its exact value to \<open>ndigits\<close> decimals, ties to even, and the
  decimal is converted back to the nearest float.
\<close>

fun round_py :: "num \<Rightarrow> nat \<Rightarrow> exn + num" where
  "round_py (IntN i) ndigits = Inr (IntN i)"
| "round_py (FloatN x) ndigits =
     as_float ''rounded value too large to represent'' (round_decimals ndigits x)"

text \<open>True division \<open>x / d\<close> by a non-zero \<open>int\<close> constant: the correctly rounded quotient.\<close>

definition truediv :: "num \<Rightarrow> int \<Rightarrow> exn + num" where
  "truediv x d = as_float ''integer division result too large for a float'' (val x / of_int d)"

text \<open>
  \<open>max\<close> and \<open>min\<close> keep the first of several equal extremes: the running extreme
  is replaced only by a strictly greater (smaller) item.  Python compares \<open>int\<close> and
  \<open>float\<close> by exact value.
\<close>

fun max_py :: "num list \<Rightarrow> exn + num" where
  "max_py [] = Inl (ValueError ''max() arg is an empty sequence'')"
| "max_py (x # xs) = Inr (foldl (\<lambda>m y. if val m < val y then y else m) x xs)"

fun min_py :: "num list \<Rightarrow> exn + num" where
  "min_py [] = Inl (ValueError ''min() arg is an empty sequence'')"
| "min_py (x # xs) = Inr (foldl (\<lambda>m y. if val y < val m then y else m) x xs)"

text \<open>
  \<open>Counter(codes)\<close>: a dictionary in insertion order from each distinct value to its
  count.  Keys are compared by numeric value (\<open>3 == 3.0\<close>); the key object stored is the
  first one inserted.
\<close>

fun bump :: "num \<Rightarrow> (num \<times> nat) list \<Rightarrow> (num \<times> nat) list" where
  "bump x [] = [(x, 1)]"
| "bump x ((k, c) # kcs) = (if val k = val x then (k, Suc c) # kcs else (k, c) # bump x kcs)"

definition Counter :: "num list \<Rightarrow> (num \<times> nat) list" where
  "Counter elems = foldl (\<lambda>acc x. bump x acc) [] elems"

text \<open>
  \<open>most_common(1)\<close> is \<open>heapq.nlargest(1, items, key=count)\<close>, which for one item is
  \<open>max(items, key=count)\<close>: the first item with the greatest count, in a list of at
  most one item.
\<close>

fun most_common1 :: "(num \<times> nat) list \<Rightarrow> (num \<times> nat) list" where
  "most_common1 [] = []"
| "most_common1 (kc # kcs) = [foldl (\<lambda>m y. if snd m < snd y then y else m) kc kcs]"

text \<open>\<open>Counter(codes).most_common(1)[0][0]\<close>\<close>

definition most_frequent :: "num list \<Rightarrow> exn + num" where
  "most_frequent codes =
     (case most_common1 (Counter codes) of
        [] \<Rightarrow> Inl (IndexError ''list index out of range'')
      | kc # _ \<Rightarrow> Inr (fst kc))"


section \<open>Floats of the path segments\<close>

text \<open>
  \<open>float(lat)\<close> can yield any Python float, including NaN and the infinities
  (\<open>float("nan")\<close>, \<open>float("inf")\<close>, \<open>float("1e999")\<close>).
\<close>

datatype pyfloat = Finite rat | PosInf | NegInf | NaN

text \<open>\<open>int(x)\<close> truncates a finite float towards zero and raises on the others.\<close>

fun int_py :: "pyfloat \<Rightarrow> exn + int" where
  "int_py (Finite q) = Inr (if 0 \<le> q then \<lfloor>q\<rfloor> else \<lceil>q\<rceil>)"
| "int_py NaN = Inl (ValueError ''cannot convert float NaN to integer'')"
| "int_py PosInf = Inl (OverflowError ''cannot convert float infinity to integer'')"
| "int_py NegInf = Inl (OverflowError ''cannot convert float infinity to integer'')"

fun round_float :: "pyfloat \<Rightarrow> nat \<Rightarrow> exn + pyfloat" where
  "round_float (Finite q) ndigits =
     (case binary64 (round_decimals ndigits q) of
        None \<Rightarrow> Inl (OverflowError ''rounded value too large to represent'')
      | Some r \<Rightarrow> Inr (Finite r))"
| "round_float x ndigits = Inr x"

section \<open>Calendar dates\<close>

datatype date = Date (year: nat) (month: nat) (day: nat)

definition is_leap :: "nat \<Rightarrow> bool" where
  "is_leap y = (y mod 4 = 0 \<and> (y mod 100 \<noteq> 0 \<or> y mod 400 = 0))"

definition days_in_month :: "nat \<Rightarrow> nat \<Rightarrow> nat" where
  "days_in_month y m =
     (if m = 2 then (if is_leap y then 29 else 28)
      else if m = 4 \<or> m = 6 \<or> m = 9 \<or> m = 11 then 30 else 31)"

definition valid_date :: "nat \<Rightarrow> nat \<Rightarrow> nat \<Rightarrow> bool" where
  "valid_date y m d =
     (1 \<le> y \<and> y \<le> 9999 \<and> 1 \<le> m \<and> m \<le> 12 \<and> 1 \<le> d \<and> d \<le> days_in_month y m)"

definition is_digit :: "char \<Rightarrow> bool" where
  "is_digit c = (48 \<le> (of_char c :: nat) \<and> (of_char c :: nat) \<le> 57)"

definition digits_value :: "string \<Rightarrow> nat" where
  "digits_value ds = foldl (\<lambda>n c. 10 * n + (of_char c - 48)) 0 ds"

definition parse_digits :: "string \<Rightarrow> nat option" where
  "parse_digits ds = (if list_all is_digit ds then Some (digits_value ds) else None)"

text \<open>
  \<open>date.fromisoformat\<close> is a parameter of the handlers (\<open>None\<close> is its
  \<open>ValueError\<close>): which strings it accepts depends on the interpreter.  Up to
  Python 3.10 it is \<open>strict_fromisoformat\<close>: exactly ten characters, four, two and
  two ASCII digits separated by hyphens, naming a day of the proleptic Gregorian calendar
  in the years 1 to 9999.  From Python 3.11 on it parses further ISO 8601 forms, such as
  the basic form \<open>YYYYMMDD\<close>.
\<close>

definition strict_fromisoformat :: "string \<Rightarrow> date option" where
  "strict_fromisoformat s =
     (if length s = 10 \<and> s ! 4 = CHR ''-'' \<and> s ! 7 = CHR ''-'' then
        (case (parse_digits (take 4 s), parse_digits (take 2 (drop 5 s)),
               parse_digits (take 2 (drop 8 s))) of
           (Some y, Some m, Some d) \<Rightarrow> if valid_date y m d then Some (Date y m d) else None
         | _ \<Rightarrow> None)
      else None)"

definition digit_char :: "nat \<Rightarrow> char" where
  "digit_char n = char_of (48 + n mod 10)"

text \<open>\<open>strftime('%Y-%m-%d')\<close> of a date with a four-digit year.\<close>

definition strftime :: "date \<Rightarrow> string" where
  "strftime t =
     [digit_char (year t div 1000), digit_char (year t div 100), digit_char (year t div 10),
      digit_char (year t), CHR ''-'',
      digit_char (month t div 10), digit_char (month t), CHR ''-'',
      digit_char (day t div 10), digit_char (day t)]"

fun next_day :: "date \<Rightarrow> date" where
  "next_day (Date y m d) =
     (if d < days_in_month y m then Date y m (d + 1)
      else if m < 12 then Date y (m + 1) 1
      else Date (y + 1) 1 1)"

text \<open>\<open>t + timedelta(days=n)\<close>; a result after the year 9999 raises \<open>OverflowError\<close>.\<close>

definition add_days :: "date \<Rightarrow> nat \<Rightarrow> exn + date" where
  "add_days t n =
     (let r = (next_day ^^ n) t
      in if 9999 < year r then Inl (OverflowError ''date value out of range'') else Inr r)"

text \<open>Dates compare as the triples (year, month, day).\<close>

definition date_gt :: "date \<Rightarrow> date \<Rightarrow> bool" where
  "date_gt a b =
     (year b < year a \<or> (year a = year b \<and> (month b < month a \<or>
        (month a = month b \<and> day b < day a))))"


section \<open>The upstream provider\<close>

text \<open>
  The body of an upstream answer, at the shape the provider documents: a \<open>daily\<close>
  object of arrays indexed by day, a \<open>daily_units\<close> object of unit strings, and the
  coordinates.  Every key may be missing.  A body that is empty, \<open>null\<close> or has no
  \<open>daily\<close> key is a record whose \<open>daily\<close> is \<open>None\<close>.
\<close>

record daily_arrays =
  time :: "string list option"
  sunshine_duration :: "num list option"
  temperature_2m_max :: "num list option"
  temperature_2m_min :: "num list option"
  weather_code :: "num list option"
  pressure_msl_mean :: "num list option"

record body =
  daily :: "daily_arrays option"
  daily_units :: "(string \<rightharpoonup> string) option"
  latitude :: "num option"
  longitude :: "num option"

text \<open>
  The URL that \<open>build_api_call\<close> formats, as the values it interpolates: the
  rounded coordinates, the \<open>daily\<close> field list, and the two dates.
\<close>

record url =
  url_latitude :: pyfloat
  url_longitude :: pyfloat
  url_daily :: string
  url_start_date :: string
  url_end_date :: string

text \<open>
  What \<open>requests.get\<close> returns: \<open>r.ok\<close>, \<open>r.status_code\<close> and the outcome of
  \<open>r.json()\<close>, which raises a \<open>ValueError\<close> (\<open>JSONDecodeError\<close>) on a body that
  is not JSON.  The call itself may raise (\<open>Inl\<close>).
\<close>

record http_response =
  ok :: bool
  status_code :: nat
  json :: "exn + body"

type_synonym requests = "url \<Rightarrow> exn + http_response"

section \<open>The handlers\<close>

definition bind :: "exn + 'a \<Rightarrow> ('a \<Rightarrow> exn + 'b) \<Rightarrow> exn + 'b" where
  "bind m f = (case m of Inl e \<Rightarrow> Inl e | Inr x \<Rightarrow> f x)"

definition range_msg :: string where
  "range_msg = ''Latitude must be -90...90 and longitude -180...180.''"

definition dates_msg :: string where
  "dates_msg = ''Dates must be YYYY-MM-DD.''"

definition order_msg :: string where
  "order_msg = ''start_date cannot be after end_date.''"

definition daily_fields :: "bool \<Rightarrow> string" where
  "daily_fields daily_flag =
     ''sunshine_duration,temperature_2m_max,temperature_2m_min,weather_code''
       @ (if daily_flag then [] else '',pressure_msl_mean'')"

text \<open>
  \<open>build_api_call\<close>.  The \<open>isinstance\<close> test of the source holds by the type
  \<open>pyfloat\<close>.  In the bounds test \<open>int(lat)\<close> is evaluated first and \<open>int(lon)\<close>
  only when the latitude is within bounds (\<open>or\<close> short-circuits).  The minus and
  ellipsis signs of the range message are written in ASCII.
\<close>

definition build_api_call ::
  "(string \<Rightarrow> date option) \<Rightarrow> date \<Rightarrow> pyfloat \<Rightarrow> pyfloat \<Rightarrow> bool \<Rightarrow> string option \<Rightarrow> string option \<Rightarrow> exn + url" where
  "build_api_call fromisoformat today lat lon daily_flag start end =
     bind (case start of None \<Rightarrow> Inr (strftime today) | Some s \<Rightarrow> Inr s) (\<lambda>start.
     bind (case end of None \<Rightarrow> bind (add_days today 7) (\<lambda>t. Inr (strftime t)) | Some s \<Rightarrow> Inr s) (\<lambda>end.
     bind (int_py lat) (\<lambda>ilat.
       if \<not> (- 90 \<le> ilat \<and> ilat \<le> 90) then Inl (ValueError range_msg)
       else
     bind (int_py lon) (\<lambda>ilon.
       if \<not> (- 180 \<le> ilon \<and> ilon \<le> 180) then Inl (ValueError range_msg)
       else
         (case fromisoformat start of
            None \<Rightarrow> Inl (ValueError dates_msg)
          | Some start_d \<Rightarrow>
         (case fromisoformat end of
            None \<Rightarrow> Inl (ValueError dates_msg)
          | Some end_d \<Rightarrow>
              if date_gt start_d end_d then Inl (ValueError order_msg)
              else
                bind (round_float lat 2) (\<lambda>lat.
                bind (round_float lon 2) (\<lambda>lon.
                  Inr \<lparr>url_latitude = lat, url_longitude = lon,
                       url_daily = daily_fields daily_flag,
                       url_start_date = start, url_end_date = end\<rparr>))))))))"

text \<open>
  \<open>fetch_weather\<close>, with the list of outbound requests it made: none when
  \<open>build_api_call\<close> raises, one otherwise.
\<close>

definition fetch_weather ::
  "(string \<Rightarrow> date option) \<Rightarrow> date \<Rightarrow> requests \<Rightarrow> pyfloat \<Rightarrow> pyfloat \<Rightarrow> bool \<Rightarrow> string option \<Rightarrow> string option
     \<Rightarrow> (exn + body) \<times> url list" where
  "fetch_weather fromisoformat today get lat lon daily_flag start end =
     (case build_api_call fromisoformat today lat lon daily_flag start end of
        Inl e \<Rightarrow> (Inl e, [])
      | Inr u \<Rightarrow>
          (bind (get u) (\<lambda>r.
             if ok r then json r
             else Inl (HTTPException (status_code r) ''Open-Meteo error'')),
           [u]))"

text \<open>JSON values of the answers.\<close>

datatype jsonv =
    JNull
  | JNumber num
  | JString string
  | JArray "jsonv list"
  | JObject "(string \<times> jsonv) list"

definition get_list :: "'a list option \<Rightarrow> 'a list" where
  "get_list field = (case field of None \<Rightarrow> [] | Some xs \<Rightarrow> xs)"

definition get_unit :: "(string \<rightharpoonup> string) \<Rightarrow> string \<Rightarrow> string" where
  "get_unit units k = (case units k of None \<Rightarrow> [] | Some u \<Rightarrow> u)"

text \<open>\<open>except ValueError as e: abort(400, description=str(e))\<close>\<close>

fun catch_ValueError :: "exn + 'a \<Rightarrow> exn + 'a" where
  "catch_ValueError (Inl (ValueError msg)) = Inl (HTTPException 400 msg)"
| "catch_ValueError r = r"

definition numeric_msg :: string where
  "numeric_msg = ''Latitude and longitude must be numeric (e.g. 37.77 -122.42).''"

definition no_data_msg :: string where
  "no_data_msg = ''No weather data found for the given location and date range.''"

definition empty_set_msg :: string where
  "empty_set_msg = ''Weather service returned empty data set.''"

text \<open>
  The first two steps of both routes: cast the path segments with \<open>float\<close> (the
  parameter \<open>parse_float\<close>, \<open>None\<close> being its \<open>ValueError\<close>), fetch, and turn a
  \<open>ValueError\<close> of the fetch into a 400.
\<close>

definition fetch_for_route ::
  "(string \<Rightarrow> pyfloat option) \<Rightarrow> (string \<Rightarrow> date option) \<Rightarrow> date \<Rightarrow> requests \<Rightarrow> bool \<Rightarrow> string \<Rightarrow> string
     \<Rightarrow> string option \<Rightarrow> string option \<Rightarrow> (exn + body) \<times> url list" where
  "fetch_for_route parse_float fromisoformat today get daily_flag lat lon start end =
     (case parse_float lat of
        None \<Rightarrow> (Inl (HTTPException 400 numeric_msg), [])
      | Some lat \<Rightarrow>
          (case parse_float lon of
             None \<Rightarrow> (Inl (HTTPException 400 numeric_msg), [])
           | Some lon \<Rightarrow>
               (case fetch_weather fromisoformat today get lat lon daily_flag start end of
                  (r, calls) \<Rightarrow> (catch_ValueError r, calls))))"

definition filtered :: "daily_arrays \<Rightarrow> (string \<rightharpoonup> string) \<Rightarrow> jsonv" where
  "filtered d units =
     JObject
       [(''daily'', JObject
          [(''time'', JArray (map JString (get_list (time d)))),
           (''sunshine_duration'', JArray (map JNumber (get_list (sunshine_duration d)))),
           (''temperature_2m_max'', JArray (map JNumber (get_list (temperature_2m_max d)))),
           (''temperature_2m_min'', JArray (map JNumber (get_list (temperature_2m_min d)))),
           (''weather_code'', JArray (map JNumber (get_list (weather_code d))))]),
        (''daily_units'', JObject
          [(''sunshine_duration'', JString (get_unit units ''sunshine_duration'')),
           (''temperature_2m_max'', JString (get_unit units ''temperature_2m_max'')),
           (''temperature_2m_min'', JString (get_unit units ''temperature_2m_min''))])]"

definition weather_daily ::
  "(string \<Rightarrow> pyfloat option) \<Rightarrow> (string \<Rightarrow> date option) \<Rightarrow> date \<Rightarrow> requests \<Rightarrow> string \<Rightarrow> string
     \<Rightarrow> string option \<Rightarrow> string option \<Rightarrow> (exn + jsonv) \<times> url list" where
  "weather_daily parse_float fromisoformat today get lat lon start end =
     (case fetch_for_route parse_float fromisoformat today get True lat lon start end of
        (Inl e, calls) \<Rightarrow> (Inl e, calls)
      | (Inr raw, calls) \<Rightarrow>
          (case daily raw of
             None \<Rightarrow> (Inl (HTTPException 404 no_data_msg), calls)
           | Some d \<Rightarrow>
               (Inr (filtered d (case daily_units raw of None \<Rightarrow> Map.empty | Some u \<Rightarrow> u)),
                calls)))"

definition opt_number :: "num option \<Rightarrow> jsonv" where
  "opt_number x = (case x of None \<Rightarrow> JNull | Some n \<Rightarrow> JNumber n)"

definition opt_string :: "string option \<Rightarrow> jsonv" where
  "opt_string x = (case x of None \<Rightarrow> JNull | Some s \<Rightarrow> JString s)"

text \<open>The five statistics, each \<open>None\<close> (JSON \<open>null\<close>) on an empty array.\<close>

definition avg_pressure_hPa :: "num list \<Rightarrow> exn + num option" where
  "avg_pressure_hPa pressures =
     (if pressures \<noteq> [] then bind (mean pressures) (\<lambda>m. bind (round_py m 1) (\<lambda>r. Inr (Some r)))
      else Inr None)"

definition weekly_max_temp :: "num list \<Rightarrow> exn + num option" where
  "weekly_max_temp t_max =
     (if t_max \<noteq> [] then bind (max_py t_max) (\<lambda>r. Inr (Some r)) else Inr None)"

definition weekly_min_temp :: "num list \<Rightarrow> exn + num option" where
  "weekly_min_temp t_min =
     (if t_min \<noteq> [] then bind (min_py t_min) (\<lambda>r. Inr (Some r)) else Inr None)"

definition avg_sunshine_hours :: "num list \<Rightarrow> exn + num option" where
  "avg_sunshine_hours sunshine =
     (if sunshine \<noteq> [] then
        bind (mean sunshine) (\<lambda>m. bind (truediv m 3600) (\<lambda>h. bind (round_py h 2) (\<lambda>r. Inr (Some r))))
      else Inr None)"

definition most_frequent_weather_code :: "num list \<Rightarrow> exn + num option" where
  "most_frequent_weather_code codes =
     (if codes \<noteq> [] then bind (most_frequent codes) (\<lambda>r. Inr (Some r)) else Inr None)"

text \<open>
  Step 4 of \<open>weather_weekly\<close>: the dictionary of statistics.  Its entries are
  evaluated in order, and an exception of one of them leaves the handler.
\<close>

definition weekly_result ::
  "body \<Rightarrow> daily_arrays \<Rightarrow> string option \<Rightarrow> string option \<Rightarrow> exn + jsonv" where
  "weekly_result data d start end =
     bind (avg_pressure_hPa (get_list (pressure_msl_mean d))) (\<lambda>avg_pressure.
     bind (weekly_max_temp (get_list (temperature_2m_max d))) (\<lambda>weekly_max.
     bind (weekly_min_temp (get_list (temperature_2m_min d))) (\<lambda>weekly_min.
     bind (avg_sunshine_hours (get_list (sunshine_duration d))) (\<lambda>avg_sunshine.
     bind (most_frequent_weather_code (get_list (weather_code d))) (\<lambda>code.
       Inr (JObject
         [(''avg_pressure_hPa'', opt_number avg_pressure),
          (''weekly_max_temp'', opt_number weekly_max),
          (''weekly_min_temp'', opt_number weekly_min),
          (''avg_sunshine_hours'', opt_number avg_sunshine),
          (''most_frequent_weather_code'', opt_number code),
          (''latitude'', opt_number (latitude data)),
          (''longitude'', opt_number (longitude data)),
          (''start_date'', if get_list (time d) \<noteq> [] then JString (hd (get_list (time d)))
                           else opt_string start),
          (''end_date'', if get_list (time d) \<noteq> [] then JString (last (get_list (time d)))
                         else opt_string end)]))))))"

definition all_empty :: "daily_arrays \<Rightarrow> bool" where
  "all_empty d =
     (get_list (pressure_msl_mean d) = [] \<and> get_list (temperature_2m_max d) = []
      \<and> get_list (temperature_2m_min d) = [] \<and> get_list (sunshine_duration d) = []
      \<and> get_list (weather_code d) = [])"

definition weather_weekly ::
  "(string \<Rightarrow> pyfloat option) \<Rightarrow> (string \<Rightarrow> date option) \<Rightarrow> date \<Rightarrow> requests \<Rightarrow> string \<Rightarrow> string
     \<Rightarrow> string option \<Rightarrow> string option \<Rightarrow> (exn + jsonv) \<times> url list" where
  "weather_weekly parse_float fromisoformat today get lat lon start end =
     (case fetch_for_route parse_float fromisoformat today get False lat lon start end of
        (Inl e, calls) \<Rightarrow> (Inl e, calls)
      | (Inr data, calls) \<Rightarrow>
          (case daily data of
             None \<Rightarrow> (Inl (HTTPException 404 no_data_msg), calls)
           | Some d \<Rightarrow>
               if all_empty d then (Inl (HTTPException 404 empty_set_msg), calls)
               else (weekly_result data d start end, calls)))"

text \<open>
  The status Flask answers with: 200 for a returned value, the code of an
  \<open>HTTPException\<close>, and 500 for any other exception, which no handler catches.
\<close>

fun status :: "exn + 'a \<Rightarrow> nat" where
  "status (Inr v) = 200"
| "status (Inl (HTTPException code description)) = code"
| "status (Inl e) = 500"

text \<open>The value of a key of a JSON object, and its keys.\<close>

fun member :: "jsonv \<Rightarrow> string \<Rightarrow> jsonv option" where
  "member (JObject kvs) k = map_of kvs k"
| "member v k = None"

fun keys :: "jsonv \<Rightarrow> string list" where
  "keys (JObject kvs) = map fst kvs"
| "keys v = []"


section \<open>Concrete requests\<close>

text \<open>
  Values of \<open>float\<close> on a few path segments: the decimal numerals denote the nearest
  double, \<open>nan\<close> and \<open>inf\<close> the special floats, and the other strings raise.
\<close>

definition decimal :: "rat \<Rightarrow> pyfloat option" where
  "decimal q = (case binary64 q of None \<Rightarrow> Some PosInf | Some r \<Rightarrow> Some (Finite r))"

definition sample_float :: "string \<Rightarrow> pyfloat option" where
  "sample_float s =
     (if s = ''10'' then decimal 10
      else if s = ''20'' then decimal 20
      else if s = ''90.9'' then decimal (909 / 10)
      else if s = ''91'' then decimal 91
      else if s = ''nan'' then Some NaN
      else if s = ''inf'' then Some PosInf
      else None)"

definition sample_today :: date where
  "sample_today = Date 2025 6 1"

text \<open>The payload of the repository's weekly test, with units for all five arrays.\<close>

definition sample_daily :: daily_arrays where
  "sample_daily =
     \<lparr>time = Some [''2025-06-01'', ''2025-06-02''],
      sunshine_duration = Some [IntN 3600, IntN 3600],
      temperature_2m_max = Some [IntN 5, IntN 10],
      temperature_2m_min = Some [IntN 2, IntN 0],
      weather_code = Some [IntN 3, IntN 3, IntN 2],
      pressure_msl_mean = Some [IntN 1000, IntN 1020]\<rparr>"

definition sample_units :: "string \<rightharpoonup> string" where
  "sample_units =
     [''time'' \<mapsto> ''iso8601'', ''sunshine_duration'' \<mapsto> ''s'',
      ''temperature_2m_max'' \<mapsto> ''C'', ''temperature_2m_min'' \<mapsto> ''C'',
      ''weather_code'' \<mapsto> ''wmo code'']"

definition answer :: "body \<Rightarrow> requests" where
  "answer b u = Inr \<lparr>ok = True, status_code = 200, json = Inr b\<rparr>"

definition sample_body :: body where
  "sample_body =
     \<lparr>daily = Some sample_daily, daily_units = Some sample_units,
      latitude = Some (IntN 10), longitude = Some (IntN 20)\<rparr>"

text \<open>A payload without the \<open>time\<close> array, and one whose \<open>daily\<close> object is empty.\<close>

definition timeless_body :: body where
  "timeless_body =
     \<lparr>daily = Some (sample_daily\<lparr>time := None\<rparr>), daily_units = None,
      latitude = None, longitude = None\<rparr>"

definition empty_daily :: daily_arrays where
  "empty_daily =
     \<lparr>time = None, sunshine_duration = None, temperature_2m_max = None,
      temperature_2m_min = None, weather_code = None, pressure_msl_mean = None\<rparr>"

definition empty_body :: body where
  "empty_body = \<lparr>daily = Some empty_daily, daily_units = None, latitude = None, longitude = None\<rparr>"


text \<open>A body without a \<open>daily\<close> object.\<close>

definition no_daily_body :: body where
  "no_daily_body = \<lparr>daily = None, daily_units = None, latitude = None, longitude = None\<rparr>"


text \<open>
  Values of \<open>date.fromisoformat\<close> under Python 3.11 and later on the strings used
  below: the basic form \<open>20250601\<close> is parsed like \<open>2025-06-01\<close>.
\<close>

definition fromisoformat_311 :: "string \<Rightarrow> date option" where
  "fromisoformat_311 s =
     (if s = ''20250601'' then Some (Date 2025 6 1)
      else if s = ''20250602'' then Some (Date 2025 6 2)
      else strict_fromisoformat s)"

section \<open>Notions of the specification\<close>

text \<open>The value of a key in the JSON object a handler returned, if it returned one.\<close>

definition field :: "exn + jsonv \<Rightarrow> string \<Rightarrow> jsonv option" where
  "field r k = (case r of Inl e \<Rightarrow> None | Inr v \<Rightarrow> member v k)"




section \<open>Evaluation of the concrete requests\<close>

lemma sample_float_10: "sample_float ''10'' = Some (Finite 10)"
  by code_simp

lemma sample_float_20: "sample_float ''20'' = Some (Finite 20)"
  by code_simp

lemma sample_float_foo: "sample_float ''foo'' = None"
  by code_simp

lemma round_10: "binary64 (round_decimals 2 10) = Some 10"
  by code_simp

lemma round_20: "binary64 (round_decimals 2 20) = Some 20"
  by code_simp

lemma default_start: "strftime sample_today = ''2025-06-01''"
  by code_simp

lemma plus_7: "add_days sample_today 7 = Inr (Date 2025 6 8)"
  by code_simp

lemma default_end: "strftime (Date 2025 6 8) = ''2025-06-08''"
  by code_simp

lemma parse_0601: "strict_fromisoformat ''2025-06-01'' = Some (Date 2025 6 1)"
  by code_simp

lemma parse_0608: "strict_fromisoformat ''2025-06-08'' = Some (Date 2025 6 8)"
  by code_simp

lemma sample_url:
  "build_api_call strict_fromisoformat sample_today (Finite 10) (Finite 20) flag None None =
     Inr \<lparr>url_latitude = Finite 10, url_longitude = Finite 20, url_daily = daily_fields flag,
          url_start_date = ''2025-06-01'', url_end_date = ''2025-06-08''\<rparr>"
  unfolding build_api_call_def
  by (simp add: bind_def default_start plus_7 default_end round_10 round_20 parse_0601 parse_0608
      date_gt_def)

lemma sample_fetch:
  "fetch_for_route sample_float strict_fromisoformat sample_today (answer b) flag ''10'' ''20'' None None =
     (Inr b, [\<lparr>url_latitude = Finite 10, url_longitude = Finite 20, url_daily = daily_fields flag,
          url_start_date = ''2025-06-01'', url_end_date = ''2025-06-08''\<rparr>])"
  by (simp add: fetch_for_route_def sample_float_10 sample_float_20 fetch_weather_def sample_url
      answer_def bind_def)

lemma stat_pressure: "avg_pressure_hPa [IntN 1000, IntN 1020] = Inr (Some (IntN 1010))"
  by code_simp

lemma stat_max: "weekly_max_temp [IntN 5, IntN 10] = Inr (Some (IntN 10))"
  by code_simp

lemma stat_min: "weekly_min_temp [IntN 2, IntN 0] = Inr (Some (IntN 0))"
  by code_simp

lemma stat_code: "most_frequent_weather_code [IntN 3, IntN 3, IntN 2] = Inr (Some (IntN 3))"
  by code_simp

lemma mean_sunshine: "mean [IntN 3600, IntN 3600] = Inr (IntN 3600)"
  by code_simp

lemma hours_sunshine: "truediv (IntN 3600) 3600 = Inr (FloatN 1)"
  by code_simp

lemma round_hours: "as_float msg (round_decimals 2 1) = Inr (FloatN 1)"
proof -
  have "binary64 (round_decimals 2 1) = Some 1"
    by code_simp
  then show ?thesis
    by (simp add: as_float_def)
qed

lemma stat_sunshine: "avg_sunshine_hours [IntN 3600, IntN 3600] = Inr (Some (FloatN 1))"
  by (simp add: avg_sunshine_hours_def mean_sunshine hours_sunshine round_hours bind_def)

lemma sample_weekly_result:
  "weekly_result data sample_daily start end =
     Inr (JObject
       [(''avg_pressure_hPa'', JNumber (IntN 1010)),
        (''weekly_max_temp'', JNumber (IntN 10)),
        (''weekly_min_temp'', JNumber (IntN 0)),
        (''avg_sunshine_hours'', JNumber (FloatN 1)),
        (''most_frequent_weather_code'', JNumber (IntN 3)),
        (''latitude'', opt_number (latitude data)),
        (''longitude'', opt_number (longitude data)),
        (''start_date'', JString ''2025-06-01''),
        (''end_date'', JString ''2025-06-02'')])"
  by (simp add: weekly_result_def sample_daily_def get_list_def stat_pressure stat_max stat_min
      stat_sunshine stat_code bind_def opt_number_def)

lemma timeless_weekly_result:
  "weekly_result data (sample_daily\<lparr>time := None\<rparr>) start end =
     Inr (JObject
       [(''avg_pressure_hPa'', JNumber (IntN 1010)),
        (''weekly_max_temp'', JNumber (IntN 10)),
        (''weekly_min_temp'', JNumber (IntN 0)),
        (''avg_sunshine_hours'', JNumber (FloatN 1)),
        (''most_frequent_weather_code'', JNumber (IntN 3)),
        (''latitude'', opt_number (latitude data)),
        (''longitude'', opt_number (longitude data)),
        (''start_date'', opt_string start),
        (''end_date'', opt_string end)])"
  by (simp add: weekly_result_def sample_daily_def get_list_def stat_pressure stat_max stat_min
      stat_sunshine stat_code bind_def opt_number_def)

section \<open>Path segments that are not numbers\<close>

text \<open>
  Claim C8.  When the latitude or the longitude segment is not parseable as a number,
  both endpoints answer 400 with the "must be numeric" description, and the list of
  outbound requests is empty: whatever the upstream would have done plays no part.
\<close>

theorem non_numeric_segment_is_400_without_call:
  assumes "parse_float lat = None \<or> parse_float lon = None"
  shows "weather_daily parse_float fromisoformat today get lat lon start end
           = (Inl (HTTPException 400 numeric_msg), [])
       \<and> weather_weekly parse_float fromisoformat today get lat lon start end
           = (Inl (HTTPException 400 numeric_msg), [])"
  using assms
  by (auto simp: weather_daily_def weather_weekly_def fetch_for_route_def split: option.splits)

theorem non_numeric_segment_is_400_without_call_witness:
  "weather_daily sample_float strict_fromisoformat sample_today (answer sample_body) ''foo'' ''bar'' None None
           = (Inl (HTTPException 400 numeric_msg), [])
       \<and> weather_weekly sample_float strict_fromisoformat sample_today (answer sample_body) ''foo'' ''bar'' None None
           = (Inl (HTTPException 400 numeric_msg), [])"
  using non_numeric_segment_is_400_without_call
    [where parse_float = sample_float and lat = "''foo''" and lon = "''bar''"
       and fromisoformat = strict_fromisoformat and today = sample_today
       and get = "answer sample_body" and start = None and ?end = None]
  by (simp add: sample_float_foo)

section \<open>The daily view\<close>

text \<open>
  Claim C5, as the code has it.  When the fetch of the daily route yields a body with a
  \<open>daily\<close> object, the answer is an object of exactly \<open>daily\<close> and
  \<open>daily_units\<close>.  \<open>daily\<close> holds exactly the five arrays \<open>time\<close>,
  \<open>sunshine_duration\<close>, \<open>temperature_2m_max\<close>, \<open>temperature_2m_min\<close>,
  \<open>weather_code\<close>, each copied from upstream or empty when missing.  \<open>daily_units\<close>
  holds exactly the unit strings of \<open>sunshine_duration\<close>, \<open>temperature_2m_max\<close> and
  \<open>temperature_2m_min\<close>, each copied from upstream or empty when missing: there is no
  unit for \<open>time\<close> or \<open>weather_code\<close>.  Neither object has a pressure field.
\<close>

theorem daily_view_copies_five_arrays_and_three_units:
  assumes "fst (fetch_for_route parse_float fromisoformat today get True lat lon start end) = Inr raw"
      and "daily raw = Some d"
  shows "\<exists>dj uj.
      fst (weather_daily parse_float fromisoformat today get lat lon start end)
        = Inr (JObject [(''daily'', dj), (''daily_units'', uj)])
    \<and> keys dj = [''time'', ''sunshine_duration'', ''temperature_2m_max'',
                  ''temperature_2m_min'', ''weather_code'']
    \<and> member dj ''time''
        = Some (JArray (map JString (case time d of None \<Rightarrow> [] | Some xs \<Rightarrow> xs)))
    \<and> member dj ''sunshine_duration''
        = Some (JArray (map JNumber (case sunshine_duration d of None \<Rightarrow> [] | Some xs \<Rightarrow> xs)))
    \<and> member dj ''temperature_2m_max''
        = Some (JArray (map JNumber (case temperature_2m_max d of None \<Rightarrow> [] | Some xs \<Rightarrow> xs)))
    \<and> member dj ''temperature_2m_min''
        = Some (JArray (map JNumber (case temperature_2m_min d of None \<Rightarrow> [] | Some xs \<Rightarrow> xs)))
    \<and> member dj ''weather_code''
        = Some (JArray (map JNumber (case weather_code d of None \<Rightarrow> [] | Some xs \<Rightarrow> xs)))
    \<and> member dj ''pressure_msl_mean'' = None
    \<and> keys uj = [''sunshine_duration'', ''temperature_2m_max'', ''temperature_2m_min'']
    \<and> member uj ''sunshine_duration''
        = Some (JString (case daily_units raw of None \<Rightarrow> [] | Some u \<Rightarrow>
                          (case u ''sunshine_duration'' of None \<Rightarrow> [] | Some s \<Rightarrow> s)))
    \<and> member uj ''temperature_2m_max''
        = Some (JString (case daily_units raw of None \<Rightarrow> [] | Some u \<Rightarrow>
                          (case u ''temperature_2m_max'' of None \<Rightarrow> [] | Some s \<Rightarrow> s)))
    \<and> member uj ''temperature_2m_min''
        = Some (JString (case daily_units raw of None \<Rightarrow> [] | Some u \<Rightarrow>
                          (case u ''temperature_2m_min'' of None \<Rightarrow> [] | Some s \<Rightarrow> s)))
    \<and> member uj ''time'' = None
    \<and> member uj ''weather_code'' = None
    \<and> member uj ''pressure_msl_mean'' = None"
proof -
  obtain calls where f:
    "fetch_for_route parse_float fromisoformat today get True lat lon start end = (Inr raw, calls)"
    using assms(1)
    by (cases "fetch_for_route parse_float fromisoformat today get True lat lon start end") auto
  have "fst (weather_daily parse_float fromisoformat today get lat lon start end)
          = Inr (filtered d (case daily_units raw of None \<Rightarrow> Map.empty | Some u \<Rightarrow> u))"
    by (simp add: weather_daily_def f assms(2))
  then show ?thesis
    by (simp add: filtered_def get_list_def get_unit_def split: option.splits)
qed

theorem daily_view_copies_five_arrays_and_three_units_witness:
  "\<exists>dj uj.
      fst (weather_daily sample_float strict_fromisoformat sample_today (answer sample_body)
             ''10'' ''20'' None None)
        = Inr (JObject [(''daily'', dj), (''daily_units'', uj)])
    \<and> member dj ''weather_code''
        = Some (JArray [JNumber (IntN 3), JNumber (IntN 3), JNumber (IntN 2)])
    \<and> member dj ''pressure_msl_mean'' = None
    \<and> keys uj = [''sunshine_duration'', ''temperature_2m_max'', ''temperature_2m_min'']
    \<and> member uj ''sunshine_duration'' = Some (JString ''s'')"
proof -
  have 1: "fst (fetch_for_route sample_float strict_fromisoformat sample_today
                  (answer sample_body) True ''10'' ''20'' None None) = Inr sample_body"
    by (simp add: sample_fetch)
  have 2: "daily sample_body = Some sample_daily"
    by (simp add: sample_body_def)
  from daily_view_copies_five_arrays_and_three_units [OF 1 2] obtain dj uj where
    "fst (weather_daily sample_float strict_fromisoformat sample_today (answer sample_body)
            ''10'' ''20'' None None)
        = Inr (JObject [(''daily'', dj), (''daily_units'', uj)])"
    "member dj ''weather_code''
        = Some (JArray (map JNumber (case weather_code sample_daily of None \<Rightarrow> [] | Some xs \<Rightarrow> xs)))"
    "member dj ''pressure_msl_mean'' = None"
    "keys uj = [''sunshine_duration'', ''temperature_2m_max'', ''temperature_2m_min'']"
    "member uj ''sunshine_duration''
        = Some (JString (case daily_units sample_body of None \<Rightarrow> [] | Some u \<Rightarrow>
                          (case u ''sunshine_duration'' of None \<Rightarrow> [] | Some s \<Rightarrow> s)))"
    by blast
  then show ?thesis
    by (simp add: sample_daily_def sample_body_def sample_units_def)
qed

text \<open>
  The claim as the specification states it, with a unit string for each of the five
  arrays, fails: upstream supplies the units \<open>iso8601\<close> of \<open>time\<close> and \<open>wmo code\<close>
  of \<open>weather_code\<close>, and the answer carries neither.
\<close>

theorem units_of_time_and_weather_code_are_dropped:
  "sample_units ''time'' = Some ''iso8601''
   \<and> sample_units ''weather_code'' = Some ''wmo code''
   \<and> daily_units sample_body = Some sample_units
   \<and> fst (weather_daily sample_float strict_fromisoformat sample_today (answer sample_body)
            ''10'' ''20'' None None)
       = Inr (JObject
           [(''daily'', JObject
              [(''time'', JArray [JString ''2025-06-01'', JString ''2025-06-02'']),
               (''sunshine_duration'', JArray [JNumber (IntN 3600), JNumber (IntN 3600)]),
               (''temperature_2m_max'', JArray [JNumber (IntN 5), JNumber (IntN 10)]),
               (''temperature_2m_min'', JArray [JNumber (IntN 2), JNumber (IntN 0)]),
               (''weather_code'', JArray [JNumber (IntN 3), JNumber (IntN 3), JNumber (IntN 2)])]),
            (''daily_units'', JObject
              [(''sunshine_duration'', JString ''s''),
               (''temperature_2m_max'', JString ''C''),
               (''temperature_2m_min'', JString ''C'')])])"
  by (simp add: weather_daily_def sample_fetch)
     (simp add: sample_body_def sample_daily_def sample_units_def filtered_def get_list_def
       get_unit_def)

text \<open>
  Claim C9.  Whenever the daily route answers with a value, its \<open>daily_units\<close> object
  has exactly the keys \<open>sunshine_duration\<close>, \<open>temperature_2m_max\<close> and
  \<open>temperature_2m_min\<close>: no unit is emitted for \<open>time\<close> or \<open>weather_code\<close>, whatever
  the upstream \<open>daily_units\<close> holds.
\<close>

theorem daily_units_has_exactly_three_keys:
  assumes "fst (weather_daily parse_float fromisoformat today get lat lon start end) = Inr out"
  shows "\<exists>uj. member out ''daily_units'' = Some uj
              \<and> keys uj = [''sunshine_duration'', ''temperature_2m_max'', ''temperature_2m_min'']
              \<and> member uj ''time'' = None \<and> member uj ''weather_code'' = None"
  using assms
  by (auto simp: weather_daily_def filtered_def split: prod.splits sum.splits option.splits)

theorem daily_units_has_exactly_three_keys_witness:
  "sample_units ''time'' = Some ''iso8601''
   \<and> sample_units ''weather_code'' = Some ''wmo code''
   \<and> fst (weather_daily sample_float strict_fromisoformat sample_today (answer sample_body) ''10'' ''20'' None None)
       = Inr (filtered sample_daily sample_units)
   \<and> (\<exists>uj. member (filtered sample_daily sample_units) ''daily_units'' = Some uj
            \<and> keys uj = [''sunshine_duration'', ''temperature_2m_max'', ''temperature_2m_min'']
            \<and> member uj ''time'' = None \<and> member uj ''weather_code'' = None)"
proof -
  have 1: "fst (weather_daily sample_float strict_fromisoformat sample_today (answer sample_body) ''10'' ''20'' None None)
       = Inr (filtered sample_daily sample_units)"
    by (simp add: weather_daily_def sample_fetch sample_body_def)
  from daily_units_has_exactly_three_keys [OF 1] show ?thesis
    using 1 by (simp add: sample_units_def)
qed

section \<open>The weekly view\<close>

lemma bind_Inl: "bind m f = Inl e \<longleftrightarrow> m = Inl e \<or> (\<exists>x. m = Inr x \<and> f x = Inl e)"
  by (cases m) (simp_all add: bind_def)

lemma bind_Inr: "bind m f = Inr y \<longleftrightarrow> (\<exists>x. m = Inr x \<and> f x = Inr y)"
  by (cases m) (simp_all add: bind_def)

lemma as_float_not_http: "as_float msg q \<noteq> Inl (HTTPException c m)"
  by (simp add: as_float_def split: option.splits)

lemma mean_not_http: "mean xs \<noteq> Inl (HTTPException c m)"
  by (simp add: mean_def Let_def as_float_not_http)

lemma round_py_not_http: "round_py x n \<noteq> Inl (HTTPException c m)"
  by (cases x) (simp_all add: as_float_not_http)

lemma truediv_not_http: "truediv x k \<noteq> Inl (HTTPException c m)"
  by (simp add: truediv_def as_float_not_http)

lemma max_py_not_http: "max_py xs \<noteq> Inl (HTTPException c m)"
  by (cases xs) simp_all

lemma min_py_not_http: "min_py xs \<noteq> Inl (HTTPException c m)"
  by (cases xs) simp_all

lemma most_frequent_not_http: "most_frequent xs \<noteq> Inl (HTTPException c m)"
  by (simp add: most_frequent_def split: list.splits)

lemma weekly_result_not_http: "weekly_result data d start end \<noteq> Inl (HTTPException c m)"
  by (auto simp: weekly_result_def bind_Inl avg_pressure_hPa_def weekly_max_temp_def
      weekly_min_temp_def avg_sunshine_hours_def most_frequent_weather_code_def
      mean_not_http round_py_not_http truediv_not_http max_py_not_http min_py_not_http
      most_frequent_not_http split: if_splits)

text \<open>
  Claim C6.  When the fetch of the weekly route yields a body, the route fails with 404
  "Weather service returned empty data set." exactly when the body has a \<open>daily\<close>
  object whose five arrays \<open>pressure_msl_mean\<close>, \<open>temperature_2m_max\<close>,
  \<open>temperature_2m_min\<close>, \<open>sunshine_duration\<close>, \<open>weather_code\<close> are all empty or
  missing; a body without a \<open>daily\<close> object fails with 404 "No weather data found
  for the given location and date range." instead.
\<close>

theorem weekly_404_empty_data_set_iff_all_arrays_empty:
  assumes "fst (fetch_for_route parse_float fromisoformat today get False lat lon start end) = Inr data"
  shows "(fst (weather_weekly parse_float fromisoformat today get lat lon start end)
            = Inl (HTTPException 404 ''Weather service returned empty data set.'')
          \<longleftrightarrow> (\<exists>d. daily data = Some d
                  \<and> get_list (pressure_msl_mean d) = [] \<and> get_list (temperature_2m_max d) = []
                  \<and> get_list (temperature_2m_min d) = [] \<and> get_list (sunshine_duration d) = []
                  \<and> get_list (weather_code d) = []))
       \<and> (daily data = None \<longrightarrow>
            fst (weather_weekly parse_float fromisoformat today get lat lon start end)
              = Inl (HTTPException 404
                      ''No weather data found for the given location and date range.''))"
proof -
  obtain calls where f:
    "fetch_for_route parse_float fromisoformat today get False lat lon start end = (Inr data, calls)"
    using assms by (cases "fetch_for_route parse_float fromisoformat today get False lat lon start end") auto
  show ?thesis
  proof (cases "daily data")
    case None
    then show ?thesis
      by (simp add: weather_weekly_def f no_data_msg_def)
  next
    case (Some d)
    then show ?thesis
      by (simp add: weather_weekly_def f all_empty_def empty_set_msg_def weekly_result_not_http)
  qed
qed

lemma empty_get_list: "get_list None = []"
  by (simp add: get_list_def)

theorem weekly_404_empty_data_set_iff_all_arrays_empty_witness:
  "fst (weather_weekly sample_float strict_fromisoformat sample_today (answer empty_body) ''10'' ''20'' None None)
     = Inl (HTTPException 404 ''Weather service returned empty data set.'')
   \<and> fst (weather_weekly sample_float strict_fromisoformat sample_today (answer no_daily_body) ''10'' ''20'' None None)
     = Inl (HTTPException 404 ''No weather data found for the given location and date range.'')
   \<and> fst (weather_weekly sample_float strict_fromisoformat sample_today (answer sample_body) ''10'' ''20'' None None)
     \<noteq> Inl (HTTPException 404 ''Weather service returned empty data set.'')"
proof -
  have 1: "fst (fetch_for_route sample_float strict_fromisoformat sample_today (answer b) False
                  ''10'' ''20'' None None) = Inr b" for b
    by (simp add: sample_fetch)
  note a = weekly_404_empty_data_set_iff_all_arrays_empty [OF 1 [of empty_body]]
  note b = weekly_404_empty_data_set_iff_all_arrays_empty [OF 1 [of no_daily_body]]
  note c = weekly_404_empty_data_set_iff_all_arrays_empty [OF 1 [of sample_body]]
  have "fst (weather_weekly sample_float strict_fromisoformat sample_today (answer empty_body) ''10'' ''20'' None None)
     = Inl (HTTPException 404 ''Weather service returned empty data set.'')"
    using a by (simp add: empty_body_def empty_daily_def empty_get_list)
  moreover have "fst (weather_weekly sample_float strict_fromisoformat sample_today (answer no_daily_body) ''10'' ''20'' None None)
     = Inl (HTTPException 404 ''No weather data found for the given location and date range.'')"
    using b by (simp add: no_daily_body_def)
  moreover have "fst (weather_weekly sample_float strict_fromisoformat sample_today (answer sample_body) ''10'' ''20'' None None)
     \<noteq> Inl (HTTPException 404 ''Weather service returned empty data set.'')"
    using c by (simp add: sample_body_def sample_daily_def get_list_def)
  ultimately show ?thesis
    by simp
qed

lemma weekly_result_Inr:
  assumes "weekly_result data d start end = Inr out"
  shows "\<exists>p mx mn s c.
      avg_pressure_hPa (get_list (pressure_msl_mean d)) = Inr p
    \<and> weekly_max_temp (get_list (temperature_2m_max d)) = Inr mx
    \<and> weekly_min_temp (get_list (temperature_2m_min d)) = Inr mn
    \<and> avg_sunshine_hours (get_list (sunshine_duration d)) = Inr s
    \<and> most_frequent_weather_code (get_list (weather_code d)) = Inr c
    \<and> out = JObject
         [(''avg_pressure_hPa'', opt_number p),
          (''weekly_max_temp'', opt_number mx),
          (''weekly_min_temp'', opt_number mn),
          (''avg_sunshine_hours'', opt_number s),
          (''most_frequent_weather_code'', opt_number c),
          (''latitude'', opt_number (latitude data)),
          (''longitude'', opt_number (longitude data)),
          (''start_date'', if get_list (time d) \<noteq> [] then JString (hd (get_list (time d)))
                           else opt_string start),
          (''end_date'', if get_list (time d) \<noteq> [] then JString (last (get_list (time d)))
                         else opt_string end)]"
  using assms unfolding weekly_result_def bind_Inr by blast

lemma weekly_Inr:
  assumes "fst (fetch_for_route parse_float fromisoformat today get False lat lon start end) = Inr data"
      and "daily data = Some d"
      and "fst (weather_weekly parse_float fromisoformat today get lat lon start end) = Inr out"
  shows "weekly_result data d start end = Inr out"
proof -
  obtain calls where f:
    "fetch_for_route parse_float fromisoformat today get False lat lon start end = (Inr data, calls)"
    using assms(1) by (cases "fetch_for_route parse_float fromisoformat today get False lat lon start end") auto
  show ?thesis
    using assms(3) by (simp add: weather_weekly_def f assms(2) split: if_splits)
qed

text \<open>
  Claim C3, as the code has it.  In a weekly summary \<open>start_date\<close> and \<open>end_date\<close>
  are the first and the last element of the upstream \<open>time\<close> array when that array is
  present and not empty; otherwise they are the \<open>start\<close> and \<open>end\<close> strings of the
  request path, and \<open>null\<close> when the request has none.  The defaults that
  \<open>build_api_call\<close> derives from today's date stay local to it.
\<close>

theorem weekly_dates_from_time_or_request_path:
  assumes "fst (fetch_for_route parse_float fromisoformat today get False lat lon start end) = Inr data"
      and "daily data = Some d"
      and "fst (weather_weekly parse_float fromisoformat today get lat lon start end) = Inr out"
  shows "member out ''start_date''
           = Some (case time d of
                     Some (t # ts) \<Rightarrow> JString t
                   | _ \<Rightarrow> (case start of None \<Rightarrow> JNull | Some s \<Rightarrow> JString s))
       \<and> member out ''end_date''
           = Some (case time d of
                     Some (t # ts) \<Rightarrow> JString (last (t # ts))
                   | _ \<Rightarrow> (case end of None \<Rightarrow> JNull | Some s \<Rightarrow> JString s))"
proof -
  from weekly_result_Inr [OF weekly_Inr [OF assms]] obtain p mx mn s c where
    "out = JObject
         [(''avg_pressure_hPa'', opt_number p),
          (''weekly_max_temp'', opt_number mx),
          (''weekly_min_temp'', opt_number mn),
          (''avg_sunshine_hours'', opt_number s),
          (''most_frequent_weather_code'', opt_number c),
          (''latitude'', opt_number (latitude data)),
          (''longitude'', opt_number (longitude data)),
          (''start_date'', if get_list (time d) \<noteq> [] then JString (hd (get_list (time d)))
                           else opt_string start),
          (''end_date'', if get_list (time d) \<noteq> [] then JString (last (get_list (time d)))
                         else opt_string end)]"
    by blast
  then have "member out ''start_date''
               = Some (if get_list (time d) \<noteq> [] then JString (hd (get_list (time d)))
                       else opt_string start)
           \<and> member out ''end_date''
               = Some (if get_list (time d) \<noteq> [] then JString (last (get_list (time d)))
                       else opt_string end)"
    by simp
  then show ?thesis
    by (simp add: get_list_def opt_string_def split: option.splits list.splits)
qed

theorem weekly_dates_from_time_or_request_path_witness:
  "member (JObject
       [(''avg_pressure_hPa'', JNumber (IntN 1010)),
        (''weekly_max_temp'', JNumber (IntN 10)),
        (''weekly_min_temp'', JNumber (IntN 0)),
        (''avg_sunshine_hours'', JNumber (FloatN 1)),
        (''most_frequent_weather_code'', JNumber (IntN 3)),
        (''latitude'', JNumber (IntN 10)),
        (''longitude'', JNumber (IntN 20)),
        (''start_date'', JString ''2025-06-01''),
        (''end_date'', JString ''2025-06-02'')]) ''start_date'' = Some (JString ''2025-06-01'')
   \<and> fst (weather_weekly sample_float strict_fromisoformat sample_today (answer sample_body) ''10'' ''20'' None None)
      = Inr (JObject
       [(''avg_pressure_hPa'', JNumber (IntN 1010)),
        (''weekly_max_temp'', JNumber (IntN 10)),
        (''weekly_min_temp'', JNumber (IntN 0)),
        (''avg_sunshine_hours'', JNumber (FloatN 1)),
        (''most_frequent_weather_code'', JNumber (IntN 3)),
        (''latitude'', JNumber (IntN 10)),
        (''longitude'', JNumber (IntN 20)),
        (''start_date'', JString ''2025-06-01''),
        (''end_date'', JString ''2025-06-02'')])"
proof -
  have 1: "fst (fetch_for_route sample_float strict_fromisoformat sample_today (answer sample_body) False
                  ''10'' ''20'' None None) = Inr sample_body"
    by (simp add: sample_fetch)
  have 2: "daily sample_body = Some sample_daily"
    by (simp add: sample_body_def)
  have 3: "fst (weather_weekly sample_float strict_fromisoformat sample_today (answer sample_body) ''10'' ''20'' None None)
      = Inr (JObject
       [(''avg_pressure_hPa'', JNumber (IntN 1010)),
        (''weekly_max_temp'', JNumber (IntN 10)),
        (''weekly_min_temp'', JNumber (IntN 0)),
        (''avg_sunshine_hours'', JNumber (FloatN 1)),
        (''most_frequent_weather_code'', JNumber (IntN 3)),
        (''latitude'', JNumber (IntN 10)),
        (''longitude'', JNumber (IntN 20)),
        (''start_date'', JString ''2025-06-01''),
        (''end_date'', JString ''2025-06-02'')])"
    by (simp add: weather_weekly_def sample_fetch 2 sample_weekly_result)
       (simp add: sample_body_def sample_daily_def all_empty_def get_list_def opt_number_def)
  from weekly_dates_from_time_or_request_path [OF 1 2 3] show ?thesis
    using 3 by (simp add: sample_daily_def)
qed

text \<open>
  The claim as the specification states it fails: a request without dates, answered by
  a body without a \<open>time\<close> array, gets \<open>null\<close> for both dates, not the defaults
  \<open>2025-06-01\<close> and \<open>2025-06-08\<close> that the upstream query was built with.
\<close>

theorem omitted_dates_are_null_not_defaults:
  "field (fst (weather_weekly sample_float strict_fromisoformat sample_today (answer timeless_body)
                 ''10'' ''20'' None None)) ''start_date'' = Some JNull
   \<and> field (fst (weather_weekly sample_float strict_fromisoformat sample_today (answer timeless_body)
                 ''10'' ''20'' None None)) ''end_date'' = Some JNull
   \<and> field (fst (weather_weekly sample_float strict_fromisoformat sample_today (answer timeless_body)
                 ''10'' ''20'' None None)) ''start_date''
        \<noteq> Some (JString (strftime sample_today))
   \<and> map url_start_date (snd (weather_weekly sample_float strict_fromisoformat sample_today (answer timeless_body)
                 ''10'' ''20'' None None)) = [strftime sample_today]"
proof -
  have "weather_weekly sample_float strict_fromisoformat sample_today (answer timeless_body) ''10'' ''20'' None None
      = (weekly_result timeless_body (sample_daily\<lparr>time := None\<rparr>) None None,
         [\<lparr>url_latitude = Finite 10, url_longitude = Finite 20, url_daily = daily_fields False,
           url_start_date = ''2025-06-01'', url_end_date = ''2025-06-08''\<rparr>])"
    by (simp add: weather_weekly_def sample_fetch)
       (simp add: timeless_body_def sample_daily_def all_empty_def get_list_def)
  then show ?thesis
    by (simp add: timeless_weekly_result field_def opt_string_def default_start)
qed

section \<open>Validation of the coordinates and dates\<close>

lemma next_day_year:
  assumes "year t = y \<or> (year t = Suc y \<and> month t = 1 \<and> day t \<le> n)" and "n < 31"
  shows "year (next_day t) = y \<or> (year (next_day t) = Suc y \<and> month (next_day t) = 1
           \<and> day (next_day t) \<le> Suc n)"
  using assms by (cases t) (auto simp: days_in_month_def)

lemma add_days_7:
  assumes "year today < 9999"
  shows "\<exists>t. add_days today 7 = Inr t"
proof -
  let ?y = "year today"
  have 0: "year today = ?y \<or> (year today = Suc ?y \<and> month today = 1 \<and> day today \<le> 0)"
    by simp
  note 1 = next_day_year [OF 0]
  note 2 = next_day_year [OF 1]
  note 3 = next_day_year [OF 2]
  note 4 = next_day_year [OF 3]
  note 5 = next_day_year [OF 4]
  note 6 = next_day_year [OF 5]
  note 7 = next_day_year [OF 6]
  have "year ((next_day ^^ 7) today) \<le> Suc ?y"
    using 7 by (auto simp: eval_nat_numeral)
  then show ?thesis
    using assms by (simp add: add_days_def Let_def)
qed

lemma defaults_ok:
  assumes "year today < 9999"
  shows "\<exists>s. (case start of None \<Rightarrow> Inr (strftime today) | Some s \<Rightarrow> Inr s) = (Inr s :: exn + string)"
    and "\<exists>e. (case end of None \<Rightarrow> bind (add_days today 7) (\<lambda>t. Inr (strftime t)) | Some s \<Rightarrow> Inr s)
             = (Inr e :: exn + string)"
  using add_days_7 [OF assms] by (auto simp: bind_def split: option.splits)

lemma build_nan_lat:
  assumes "year today < 9999"
  shows "build_api_call fromisoformat today NaN lon flag start end
           = Inl (ValueError ''cannot convert float NaN to integer'')"
proof -
  from defaults_ok [OF assms] obtain s e where
    "(case start of None \<Rightarrow> Inr (strftime today) | Some s \<Rightarrow> Inr s) = (Inr s :: exn + string)"
    "(case end of None \<Rightarrow> bind (add_days today 7) (\<lambda>t. Inr (strftime t)) | Some s \<Rightarrow> Inr s)
             = (Inr e :: exn + string)"
    by blast
  then show ?thesis
    unfolding build_api_call_def by (simp add: bind_def)
qed

lemma build_nan_lon:
  assumes "year today < 9999"
  shows "\<exists>msg. build_api_call fromisoformat today (Finite q) NaN flag start end
           = Inl (ValueError msg)"
proof -
  from defaults_ok [OF assms] obtain s e where
    "(case start of None \<Rightarrow> Inr (strftime today) | Some s \<Rightarrow> Inr s) = (Inr s :: exn + string)"
    "(case end of None \<Rightarrow> bind (add_days today 7) (\<lambda>t. Inr (strftime t)) | Some s \<Rightarrow> Inr s)
             = (Inr e :: exn + string)"
    by blast
  then show ?thesis
    unfolding build_api_call_def by (simp add: bind_def)
qed

lemma route_ValueError:
  assumes "parse_float lat = Some la" and "parse_float lon = Some lo"
      and "build_api_call fromisoformat today la lo flag start end = Inl (ValueError msg)"
  shows "fetch_for_route parse_float fromisoformat today get flag lat lon start end
           = (Inl (HTTPException 400 msg), [])"
  using assms by (simp add: fetch_for_route_def fetch_weather_def)

lemma routes_of_fetch_error:
  assumes "\<And>flag. fetch_for_route parse_float fromisoformat today get flag lat lon start end
           = (Inl e, calls)"
  shows "weather_daily parse_float fromisoformat today get lat lon start end = (Inl e, calls)"
    and "weather_weekly parse_float fromisoformat today get lat lon start end = (Inl e, calls)"
  by (simp_all add: weather_daily_def weather_weekly_def assms)

lemma nan_fetch:
  assumes "year today < 9999"
      and "parse_float lat = Some NaN
           \<or> (parse_float lon = Some NaN
               \<and> parse_float lat \<noteq> Some PosInf \<and> parse_float lat \<noteq> Some NegInf)"
  shows "\<exists>msg. fetch_for_route parse_float fromisoformat today get flag lat lon start end
           = (Inl (HTTPException 400 msg), [])"
proof (cases "parse_float lat")
  case None
  then show ?thesis
    by (simp add: fetch_for_route_def)
next
  case (Some la)
  show ?thesis
  proof (cases "parse_float lon")
    case None
    then show ?thesis
      by (simp add: fetch_for_route_def Some)
  next
    case lo: (Some lo)
    have "\<exists>msg. build_api_call fromisoformat today la lo flag start end = Inl (ValueError msg)"
    proof (cases la)
      case (Finite q)
      then show ?thesis
        using assms(2) Some lo build_nan_lon [OF assms(1)] by auto
    next
      case NaN
      then show ?thesis
        using build_nan_lat [OF assms(1)] by auto
    qed (use assms(2) Some in auto)
    then show ?thesis
      using route_ValueError [OF Some lo] by blast
  qed
qed

text \<open>
  A NaN segment behind a latitude that is not infinite.  When the latitude segment
  parses to NaN, or the longitude segment does and the latitude is not infinite, both
  endpoints answer 400 and send nothing upstream: \<open>int\<close> of NaN raises
  \<open>ValueError\<close> in the bounds test, and the routes turn a \<open>ValueError\<close> of the
  fetch into a 400.  (The system date is taken to lie before the year 9999, so that the
  default end date exists.)
\<close>

theorem nan_segment_is_400:
  assumes "year today < 9999"
      and "parse_float lat = Some NaN
           \<or> (parse_float lon = Some NaN
               \<and> parse_float lat \<noteq> Some PosInf \<and> parse_float lat \<noteq> Some NegInf)"
  shows "status (fst (weather_daily parse_float fromisoformat today get lat lon start end)) = 400
       \<and> snd (weather_daily parse_float fromisoformat today get lat lon start end) = []
       \<and> status (fst (weather_weekly parse_float fromisoformat today get lat lon start end)) = 400
       \<and> snd (weather_weekly parse_float fromisoformat today get lat lon start end) = []
       \<and> int_py NaN = Inl (ValueError ''cannot convert float NaN to integer'')
       \<and> catch_ValueError (Inl (ValueError ''cannot convert float NaN to integer'') :: exn + body)
           = Inl (HTTPException 400 ''cannot convert float NaN to integer'')"
proof -
  from nan_fetch [OF assms] obtain m1 m2 where
    "fetch_for_route parse_float fromisoformat today get True lat lon start end
       = (Inl (HTTPException 400 m1), [])"
    "fetch_for_route parse_float fromisoformat today get False lat lon start end
       = (Inl (HTTPException 400 m2), [])"
    by metis
  then show ?thesis
    by (simp add: weather_daily_def weather_weekly_def)
qed

lemma sample_float_nan: "sample_float ''nan'' = Some NaN"
  by code_simp

lemma sample_float_inf: "sample_float ''inf'' = Some PosInf"
  by code_simp

theorem nan_segment_is_400_witness:
  "status (fst (weather_daily sample_float strict_fromisoformat sample_today (answer sample_body)
                  ''nan'' ''20'' None None)) = 400
   \<and> snd (weather_daily sample_float strict_fromisoformat sample_today (answer sample_body)
                  ''nan'' ''20'' None None) = []
   \<and> status (fst (weather_weekly sample_float strict_fromisoformat sample_today (answer sample_body)
                  ''10'' ''nan'' None None)) = 400
   \<and> snd (weather_weekly sample_float strict_fromisoformat sample_today (answer sample_body)
                  ''10'' ''nan'' None None) = []"
proof -
  have y: "year sample_today < 9999"
    by (simp add: sample_today_def)
  have a: "sample_float ''nan'' = Some NaN
           \<or> (sample_float ''20'' = Some NaN
               \<and> sample_float ''nan'' \<noteq> Some PosInf \<and> sample_float ''nan'' \<noteq> Some NegInf)"
    by (simp add: sample_float_nan)
  have b: "sample_float ''10'' = Some NaN
           \<or> (sample_float ''nan'' = Some NaN
               \<and> sample_float ''10'' \<noteq> Some PosInf \<and> sample_float ''10'' \<noteq> Some NegInf)"
    by (simp add: sample_float_nan sample_float_10)
  from nan_segment_is_400 [OF y a, of strict_fromisoformat "answer sample_body" None None]
       nan_segment_is_400 [OF y b, of strict_fromisoformat "answer sample_body" None None]
  show ?thesis
    by simp
qed

text \<open>The bounds test on finite coordinates: it compares the truncated values.\<close>

lemma bounds_test_truncates:
  assumes "year today < 9999"
  shows "build_api_call fromisoformat today (Finite la) (Finite lo) flag start end
           = Inl (ValueError range_msg)
         \<longleftrightarrow> \<not> (- 90 \<le> (if 0 \<le> la then \<lfloor>la\<rfloor> else \<lceil>la\<rceil>)
                \<and> (if 0 \<le> la then \<lfloor>la\<rfloor> else \<lceil>la\<rceil>) \<le> 90)
             \<or> \<not> (- 180 \<le> (if 0 \<le> lo then \<lfloor>lo\<rfloor> else \<lceil>lo\<rceil>)
                \<and> (if 0 \<le> lo then \<lfloor>lo\<rfloor> else \<lceil>lo\<rceil>) \<le> 180)"
proof -
  from defaults_ok [OF assms] obtain s e where d:
    "(case start of None \<Rightarrow> Inr (strftime today) | Some s \<Rightarrow> Inr s) = (Inr s :: exn + string)"
    "(case end of None \<Rightarrow> bind (add_days today 7) (\<lambda>t. Inr (strftime t)) | Some s \<Rightarrow> Inr s)
             = (Inr e :: exn + string)"
    by blast
  have r: "range_msg \<noteq> dates_msg" "range_msg \<noteq> order_msg"
    by (simp_all add: range_msg_def dates_msg_def order_msg_def)
  show ?thesis
    unfolding build_api_call_def d
    using r by (auto simp: bind_def split: option.splits)
qed


lemma ninety_point_nine_passes_the_bounds_test:
  "build_api_call fromisoformat sample_today (Finite (909 / 10)) (Finite 20) flag None None
     \<noteq> Inl (ValueError range_msg)"
proof -
  have "year sample_today < 9999"
    by (simp add: sample_today_def)
  from bounds_test_truncates [OF this] show ?thesis
    by simp
qed

text \<open>
  Claim C2, at an infinite latitude.  \<open>float("inf")\<close> parses, \<open>int\<close> of it raises
  \<open>OverflowError\<close> in the bounds test, and neither route catches that: the request
  ends in an unhandled exception, status 500, where a latitude outside -90...90 is
  to be refused with 400.
\<close>

theorem infinite_latitude_is_unhandled:
  "weather_daily sample_float strict_fromisoformat sample_today (answer sample_body)
       ''inf'' ''20'' None None
     = (Inl (OverflowError ''cannot convert float infinity to integer''), [])
   \<and> weather_weekly sample_float strict_fromisoformat sample_today (answer sample_body)
       ''inf'' ''20'' None None
     = (Inl (OverflowError ''cannot convert float infinity to integer''), [])
   \<and> status (Inl (OverflowError ''cannot convert float infinity to integer'') :: exn + jsonv)
     = 500"
proof -
  have "build_api_call strict_fromisoformat sample_today PosInf (Finite 20) flag None None
          = Inl (OverflowError ''cannot convert float infinity to integer'')" for flag
    unfolding build_api_call_def
    by (simp add: bind_def default_start plus_7 default_end)
  then have "fetch_for_route sample_float strict_fromisoformat sample_today (answer sample_body)
               flag ''inf'' ''20'' None None
          = (Inl (OverflowError ''cannot convert float infinity to integer''), [])" for flag
    by (simp add: fetch_for_route_def fetch_weather_def sample_float_inf sample_float_20)
  then show ?thesis
    by (simp add: weather_daily_def weather_weekly_def)
qed

text \<open>
  Claim C10, behind an infinite latitude.  The longitude segment \<open>nan\<close> is to be
  refused with 400, but \<open>int\<close> of the infinite latitude is evaluated first and raises
  \<open>OverflowError\<close>, which neither route catches: the request ends in an unhandled
  exception, status 500, before NaN is ever truncated.
\<close>

theorem nan_longitude_behind_infinite_latitude_is_unhandled:
  "weather_daily sample_float strict_fromisoformat sample_today (answer sample_body)
       ''inf'' ''nan'' None None
     = (Inl (OverflowError ''cannot convert float infinity to integer''), [])
   \<and> weather_weekly sample_float strict_fromisoformat sample_today (answer sample_body)
       ''inf'' ''nan'' None None
     = (Inl (OverflowError ''cannot convert float infinity to integer''), [])
   \<and> status (Inl (OverflowError ''cannot convert float infinity to integer'') :: exn + jsonv)
     = 500"
proof -
  have "build_api_call strict_fromisoformat sample_today PosInf NaN flag None None
          = Inl (OverflowError ''cannot convert float infinity to integer'')" for flag
    unfolding build_api_call_def
    by (simp add: bind_def default_start plus_7 default_end)
  then have "fetch_for_route sample_float strict_fromisoformat sample_today (answer sample_body)
               flag ''inf'' ''nan'' None None
          = (Inl (OverflowError ''cannot convert float infinity to integer''), [])" for flag
    by (simp add: fetch_for_route_def fetch_weather_def sample_float_inf sample_float_nan)
  then show ?thesis
    by (simp add: weather_daily_def weather_weekly_def)
qed

text \<open>Dates that the parser rejects, or that are out of order, are refused with 400.\<close>

lemma rejected_dates_are_400:
  assumes "parse_float lat = Some (Finite la)" and "parse_float lon = Some (Finite lo)"
      and "fromisoformat s = None \<or> fromisoformat e = None
           \<or> (\<exists>a b. fromisoformat s = Some a \<and> fromisoformat e = Some b \<and> date_gt a b)"
  shows "\<exists>msg. fetch_for_route parse_float fromisoformat today get flag lat lon (Some s) (Some e)
           = (Inl (HTTPException 400 msg), [])"
proof -
  have "\<exists>msg. build_api_call fromisoformat today (Finite la) (Finite lo) flag (Some s) (Some e)
          = Inl (ValueError msg)"
    unfolding build_api_call_def using assms(3)
    by (auto simp: bind_def split: option.splits)
  then show ?thesis
    using route_ValueError [OF assms(1,2)] by blast
qed

text \<open>
  Claim C7, under Python 3.11 and later.  The strings \<open>20250601\<close> and \<open>20250602\<close>
  are not of the form YYYY-MM-DD, yet \<open>date.fromisoformat\<close> parses them: the request
  is not refused but sent upstream with these strings as its dates, and the daily view
  of the answer is returned.
\<close>

theorem basic_form_dates_are_forwarded:
  "strict_fromisoformat ''20250601'' = None
   \<and> fst (weather_daily sample_float fromisoformat_311 sample_today (answer sample_body)
            ''10'' ''20'' (Some ''20250601'') (Some ''20250602''))
       = Inr (filtered sample_daily sample_units)
   \<and> snd (weather_daily sample_float fromisoformat_311 sample_today (answer sample_body)
            ''10'' ''20'' (Some ''20250601'') (Some ''20250602''))
       = [\<lparr>url_latitude = Finite 10, url_longitude = Finite 20, url_daily = daily_fields True,
           url_start_date = ''20250601'', url_end_date = ''20250602''\<rparr>]"
proof -
  have 1: "strict_fromisoformat ''20250601'' = None"
    by code_simp
  have "build_api_call fromisoformat_311 sample_today (Finite 10) (Finite 20) True
          (Some ''20250601'') (Some ''20250602'')
        = Inr \<lparr>url_latitude = Finite 10, url_longitude = Finite 20, url_daily = daily_fields True,
           url_start_date = ''20250601'', url_end_date = ''20250602''\<rparr>"
    unfolding build_api_call_def
    by (simp add: bind_def fromisoformat_311_def round_10 round_20 date_gt_def)
  then have "weather_daily sample_float fromisoformat_311 sample_today (answer sample_body)
            ''10'' ''20'' (Some ''20250601'') (Some ''20250602'')
       = (Inr (filtered sample_daily sample_units),
          [\<lparr>url_latitude = Finite 10, url_longitude = Finite 20, url_daily = daily_fields True,
           url_start_date = ''20250601'', url_end_date = ''20250602''\<rparr>])"
    by (simp add: weather_daily_def fetch_for_route_def fetch_weather_def sample_float_10
        sample_float_20 answer_def bind_def sample_body_def)
  then show ?thesis
    using 1 by simp
qed

section \<open>The most frequent weather code\<close>


















section \<open>The weekly statistics\<close>








text \<open>
  Rounding to \<open>n\<close> decimals yields a multiple of \<open>10\<^sup>-\<^sup>n\<close> at most half a unit
  of the last place away.
\<close>

lemma round_half_even_nearest: "\<bar>of_int (round_half_even q) - q\<bar> \<le> 1 / 2"
proof -
  have "of_int \<lfloor>q\<rfloor> \<le> q" "q < of_int \<lfloor>q\<rfloor> + 1"
    by linarith+
  then show ?thesis
    by (auto simp: round_half_even_def Let_def abs_le_iff)
qed

lemma round_decimals_nearest:
  "\<bar>round_decimals n x - x\<bar> \<le> 1 / (2 * 10 ^ n)"
proof -
  let ?k = "round_half_even (x * 10 ^ n)"
  have "round_decimals n x - x = (of_int ?k - x * 10 ^ n) / 10 ^ n"
    by (simp add: round_decimals_def field_simps)
  then have "\<bar>round_decimals n x - x\<bar> = \<bar>of_int ?k - x * 10 ^ n\<bar> / 10 ^ n"
    by (simp add: abs_divide)
  also have "\<dots> \<le> (1 / 2) / 10 ^ n"
  proof (rule divide_right_mono)
    show "\<bar>of_int ?k - x * 10 ^ n\<bar> \<le> 1 / 2"
      by (rule round_half_even_nearest)
    show "(0 :: rat) \<le> 10 ^ n"
      by simp
  qed
  finally show ?thesis
    by simp
qed











end
